theory Spec2Isabelle
  imports Complex_Main "HOL-Library.Multiset"
begin

section \<open>Data model of \<^verbatim>\<open>src/app/page.tsx\<close>\<close>

text \<open>
  The three interfaces of the page. \<^verbatim>\<open>Token extends JupiterToken\<close> is a record
  extension. JavaScript numbers that hold counts are modelled as unbounded integers
  (\<open>int\<close>); \<^verbatim>\<open>daily_volume\<close> is carried through untouched.
\<close>

record JupiterToken =
  address :: string
  name :: string
  symbol :: string
  decimals :: int
  logoURI :: string
  tags :: "string list"
  daily_volume :: real
  freeze_authority :: "string option"
  mint_authority :: "string option"

record Token = JupiterToken +
  likes :: int
  dislikes :: int

text \<open>
  A Firestore document of the collection \<^verbatim>\<open>coins\<close>: field name to number.
  \<^verbatim>\<open>doc.data() as FirebaseData\<close> is an unchecked cast, so either of the fields
  \<^verbatim>\<open>likes\<close> and \<^verbatim>\<open>dislikes\<close> may be missing (\<open>None\<close> is JavaScript's
  \<^verbatim>\<open>undefined\<close>), and other fields may be present.
\<close>

type_synonym FirebaseData = "string \<rightharpoonup> int"

text \<open>\<^verbatim>\<open>Record<string, FirebaseData>\<close>: document id to document.\<close>

type_synonym firebase_map = "string \<rightharpoonup> FirebaseData"

section \<open>The snapshot callback: building the tally map and joining\<close>

text \<open>
  \<^verbatim>\<open>snapshot.docs.forEach(doc => { firebaseData[doc.id] = doc.data() })\<close>, starting
  from the empty object: a later document with the same id overwrites an earlier one.
\<close>

definition firebaseData_of :: "(string \<times> FirebaseData) list \<Rightarrow> firebase_map" where
  "firebaseData_of docs = fold (\<lambda>(doc_id, doc_data) m. m(doc_id \<mapsto> doc_data)) docs Map.empty"

text \<open>
  \<^verbatim>\<open>firebaseData[addr]?.field || 0\<close>: a missing document or a missing field is
  \<^verbatim>\<open>undefined\<close>, which is falsy, and so is the number 0; every other number is kept.
\<close>

definition field_or_zero :: "firebase_map \<Rightarrow> string \<Rightarrow> string \<Rightarrow> int" where
  "field_or_zero firebaseData addr field =
     (case firebaseData addr of
        None \<Rightarrow> 0
      | Some d \<Rightarrow> (case d field of None \<Rightarrow> 0 | Some n \<Rightarrow> (if n = 0 then 0 else n)))"

text \<open>The object literal \<^verbatim>\<open>{...jToken, likes: ..., dislikes: ...}\<close>.\<close>

definition join_token :: "firebase_map \<Rightarrow> JupiterToken \<Rightarrow> Token" where
  "join_token firebaseData jToken =
     \<lparr> address = address jToken, name = name jToken, symbol = symbol jToken,
       decimals = decimals jToken, logoURI = logoURI jToken, tags = tags jToken,
       daily_volume = daily_volume jToken, freeze_authority = freeze_authority jToken,
       mint_authority = mint_authority jToken,
       likes = field_or_zero firebaseData (address jToken) ''likes'',
       dislikes = field_or_zero firebaseData (address jToken) ''dislikes'' \<rparr>"

text \<open>\<^verbatim>\<open>const combinedTokens = jupiterTokens.map(jToken => ...)\<close>.\<close>

definition combinedTokens :: "firebase_map \<Rightarrow> JupiterToken list \<Rightarrow> Token list" where
  "combinedTokens firebaseData jupiterTokens = map (join_token firebaseData) jupiterTokens"

text \<open>The counts the page reads from a tally: a field that is not set reads as 0.\<close>

definition tally_likes :: "FirebaseData \<Rightarrow> int" where
  "tally_likes d = (case d ''likes'' of None \<Rightarrow> 0 | Some n \<Rightarrow> n)"

definition tally_dislikes :: "FirebaseData \<Rightarrow> int" where
  "tally_dislikes d = (case d ''dislikes'' of None \<Rightarrow> 0 | Some n \<Rightarrow> n)"

text \<open>The catalog part of a view entry: the token without its two counts.\<close>

definition catalog_part :: "Token \<Rightarrow> JupiterToken" where
  "catalog_part t =
     \<lparr> address = address t, name = name t, symbol = symbol t, decimals = decimals t,
       logoURI = logoURI t, tags = tags t, daily_volume = daily_volume t,
       freeze_authority = freeze_authority t, mint_authority = mint_authority t \<rparr>"

section \<open>Strings\<close>

text \<open>
  A string is the list of its characters. \<^verbatim>\<open>hay.includes(needle)\<close>: the needle
  starts at some position of the hay.
\<close>

fun starts_with :: "string \<Rightarrow> string \<Rightarrow> bool" where
  "starts_with hay [] = True"
| "starts_with [] (n # ns) = False"
| "starts_with (h # hs) (n # ns) = (h = n \<and> starts_with hs ns)"

fun includes_str :: "string \<Rightarrow> string \<Rightarrow> bool" where
  "includes_str [] needle = (needle = [])"
| "includes_str (h # hs) needle = (starts_with (h # hs) needle \<or> includes_str hs needle)"

text \<open>A string of ASCII characters only: no character has its top bit set.\<close>

fun is_ascii :: "string \<Rightarrow> bool" where
  "is_ascii [] = True"
| "is_ascii (c # cs) = (\<not> digit7 c \<and> is_ascii cs)"

text \<open>The upper-case ASCII letters, each with its lower-case letter.\<close>

definition case_pairs :: "(char \<times> char) list" where
  "case_pairs = zip ''ABCDEFGHIJKLMNOPQRSTUVWXYZ'' ''abcdefghijklmnopqrstuvwxyz''"

definition ascii_lower_char :: "char \<Rightarrow> char" where
  "ascii_lower_char c = (case map_of case_pairs c of None \<Rightarrow> c | Some l \<Rightarrow> l)"

text \<open>
  \<^verbatim>\<open>s.toLowerCase()\<close>. On a string of ASCII characters JavaScript maps A to Z to
  a to z and keeps every other character. On a string with any other character the
  result comes from the Unicode case tables of the runtime, which may also change the
  length; those tables are not part of the repository, so that part of the function is
  the parameter \<open>unicode_lower\<close>, and what is proved holds for every value of it.
\<close>

definition toLowerCase :: "(string \<Rightarrow> string) \<Rightarrow> string \<Rightarrow> string" where
  "toLowerCase unicode_lower s =
     (if is_ascii s then map ascii_lower_char s else unicode_lower s)"

text \<open>\<^verbatim>\<open>s.split('/')\<close>: the pieces between the slashes, empty pieces included.\<close>

fun split_slash :: "string \<Rightarrow> string list" where
  "split_slash [] = [[]]"
| "split_slash (c # cs) =
     (if c = CHR ''/'' then [] # split_slash cs
      else (case split_slash cs of [] \<Rightarrow> [[c]] | seg # segs \<Rightarrow> (c # seg) # segs))"

text \<open>The segments of a path written with slashes between them.\<close>

fun join_slash :: "string list \<Rightarrow> string" where
  "join_slash [] = []"
| "join_slash [s] = s"
| "join_slash (s # t # ts) = s @ ''/'' @ join_slash (t # ts)"

section \<open>The catalog fetch\<close>

text \<open>
  What the HTTP request can come to: \<^verbatim>\<open>fetch\<close> rejects (transport failure), or it
  resolves to a response with a status and a body. \<^verbatim>\<open>response.json()\<close> rejects on
  a body that is not JSON; otherwise it resolves to whatever the body denotes, and the
  annotation \<^verbatim>\<open>JupiterToken[]\<close> checks nothing: the value may be \<^verbatim>\<open>null\<close>, a
  value that is not an array (an object, a string, a number), or an array. An array
  element is \<^verbatim>\<open>null\<close> or is taken to be a token object with the fields the
  interface declares.
\<close>

datatype json_item = NullItem | TokenItem JupiterToken

datatype json_body = Malformed | JsonNull | JsonNonArray | JsonArray "json_item list"

datatype http_outcome = NetworkFailure | Response nat json_body

datatype error = FetchRejected | HttpError nat | JsonSyntaxError | TypeError | InvalidArgument

text \<open>What \<^verbatim>\<open>fetchJupiterTokens\<close> hands to its caller.\<close>

datatype fetched = NonArrayValue | ArrayValue "json_item list"

text \<open>\<^verbatim>\<open>response.ok\<close>: the status is in the range 200 to 299.\<close>

definition response_ok :: "nat \<Rightarrow> bool" where
  "response_ok status = (200 \<le> status \<and> status \<le> 299)"

text \<open>
  The \<^verbatim>\<open>try\<close> block of \<^verbatim>\<open>fetchJupiterTokens\<close>; \<open>Inl\<close> is a throw. After
  the body is parsed, \<^verbatim>\<open>data.length\<close> is read for the log line: that throws on
  \<^verbatim>\<open>null\<close> and on nothing else.
\<close>

definition fetch_try :: "http_outcome \<Rightarrow> error + fetched" where
  "fetch_try r =
     (case r of
        NetworkFailure \<Rightarrow> Inl FetchRejected
      | Response status body \<Rightarrow>
          (if \<not> response_ok status then Inl (HttpError status)
           else (case body of
                   Malformed \<Rightarrow> Inl JsonSyntaxError
                 | JsonNull \<Rightarrow> Inl TypeError
                 | JsonNonArray \<Rightarrow> Inr NonArrayValue
                 | JsonArray items \<Rightarrow> Inr (ArrayValue items))))"

text \<open>The whole function: the \<^verbatim>\<open>catch\<close> clause logs and returns \<^verbatim>\<open>[]\<close>.\<close>

definition fetchJupiterTokens :: "http_outcome \<Rightarrow> error + fetched" where
  "fetchJupiterTokens r =
     (case fetch_try r of Inl e \<Rightarrow> Inr (ArrayValue []) | Inr data \<Rightarrow> Inr data)"


text \<open>
  A body that is JSON and is not an array of token objects: not an array at all, or
  an array with a \<^verbatim>\<open>null\<close> in it.
\<close>

fun items_as_tokens :: "json_item list \<Rightarrow> JupiterToken list option" where
  "items_as_tokens [] = Some []"
| "items_as_tokens (NullItem # items) = None"
| "items_as_tokens (TokenItem j # items) =
     (case items_as_tokens items of None \<Rightarrow> None | Some js \<Rightarrow> Some (j # js))"


section \<open>The component state and the subscription callbacks\<close>

text \<open>The three \<^verbatim>\<open>useState\<close> cells of \<^verbatim>\<open>Home\<close> and their initial values.\<close>

record home_state =
  tokens :: "Token list"
  searchTerm :: string
  isLoading :: bool

definition initial_home :: home_state where
  "initial_home = \<lparr> tokens = [], searchTerm = [], isLoading = True \<rparr>"

text \<open>
  The \<^verbatim>\<open>try\<close> block of the snapshot callback from the \<^verbatim>\<open>await\<close> on: the
  fetch settles with \<open>r\<close>. \<^verbatim>\<open>jupiterTokens.map\<close> throws when the value is not an
  array, and the arrow function throws at \<^verbatim>\<open>jToken.address\<close> on a \<^verbatim>\<open>null\<close>
  element; nothing has been set by then. Otherwise the tokens are joined and both
  cells are set.
\<close>

definition snapshot_try :: "firebase_map \<Rightarrow> http_outcome \<Rightarrow> home_state \<Rightarrow> error + home_state" where
  "snapshot_try firebaseData r s =
     (case fetchJupiterTokens r of
        Inl e \<Rightarrow> Inl e
      | Inr NonArrayValue \<Rightarrow> Inl TypeError
      | Inr (ArrayValue items) \<Rightarrow>
          (case items_as_tokens items of
             None \<Rightarrow> Inl TypeError
           | Some jupiterTokens \<Rightarrow>
               Inr (s\<lparr> tokens := combinedTokens firebaseData jupiterTokens,
                       isLoading := False \<rparr>)))"

text \<open>
  The callback with its \<^verbatim>\<open>catch\<close> clause, which logs and sets \<^verbatim>\<open>isLoading\<close>
  to false; \<open>Inl\<close> would be an exception that leaves the callback.
\<close>

definition onSnapshot_callback ::
  "firebase_map \<Rightarrow> http_outcome \<Rightarrow> home_state \<Rightarrow> error + home_state" where
  "onSnapshot_callback firebaseData r s =
     (case snapshot_try firebaseData r s of
        Inl e \<Rightarrow> Inr (s\<lparr> isLoading := False \<rparr>)
      | Inr s' \<Rightarrow> Inr s')"

text \<open>The component state once the callback has run.\<close>

definition onSnapshot_next :: "firebase_map \<Rightarrow> http_outcome \<Rightarrow> home_state \<Rightarrow> home_state" where
  "onSnapshot_next firebaseData r s =
     (case onSnapshot_callback firebaseData r s of Inl e \<Rightarrow> s | Inr s' \<Rightarrow> s')"

text \<open>The error callback of the subscription.\<close>

definition onSnapshot_error :: "home_state \<Rightarrow> home_state" where
  "onSnapshot_error s = s\<lparr> isLoading := False \<rparr>"

section \<open>Votes\<close>

text \<open>
  A \<^verbatim>\<open>setDoc(doc(db, collection, id), data, { merge })\<close> call, as data: the only
  field value the page writes is the sentinel \<^verbatim>\<open>increment(n)\<close>.
\<close>

datatype field_value = Increment int

record write_cmd =
  w_collection :: string
  w_id :: string
  w_data :: "(string \<times> field_value) list"
  w_merge :: bool

definition like_cmd :: "string \<Rightarrow> write_cmd" where
  "like_cmd addr =
     \<lparr> w_collection = ''coins'', w_id = addr, w_data = [(''likes'', Increment 1)],
       w_merge = True \<rparr>"

definition dislike_cmd :: "string \<Rightarrow> write_cmd" where
  "dislike_cmd addr =
     \<lparr> w_collection = ''coins'', w_id = addr, w_data = [(''dislikes'', Increment 1)],
       w_merge = True \<rparr>"

text \<open>
  \<^verbatim>\<open>doc(db, 'coins', address)\<close>. The function belongs to the Firestore client, which
  the repository imports and does not contain; this is its path check. An argument with
  two slashes in a row is refused; the arguments are split at the slashes and the empty
  pieces dropped; a document path must have an even number of segments. The reference
  is the collection path and the document id.
\<close>

definition doc_ref :: "string \<Rightarrow> string \<Rightarrow> error + string \<times> string" where
  "doc_ref path addr =
     (if path = [] \<or> includes_str path ''//'' \<or> includes_str addr ''//''
      then Inl InvalidArgument
      else (let segments = filter (\<lambda>seg. seg \<noteq> []) (split_slash path) @
                           filter (\<lambda>seg. seg \<noteq> []) (split_slash addr)
            in if segments \<noteq> [] \<and> even (length segments)
               then Inr (join_slash (butlast segments), last segments)
               else Inl InvalidArgument))"

text \<open>The write of the two handlers: \<^verbatim>\<open>{ [field]: increment(1) }, { merge: true }\<close>.\<close>

definition increment_cmd :: "string \<times> string \<Rightarrow> string \<Rightarrow> write_cmd" where
  "increment_cmd ref field =
     \<lparr> w_collection = fst ref, w_id = snd ref, w_data = [(field, Increment 1)],
       w_merge = True \<rparr>"

text \<open>An address that names a document of \<^verbatim>\<open>coins\<close>: not empty and without slash.\<close>

definition valid_doc_id :: "string \<Rightarrow> bool" where
  "valid_doc_id addr = (addr \<noteq> [] \<and> CHR ''/'' \<notin> set addr)"

section \<open>The session: component state and its effects on the outside\<close>

text \<open>
  Besides the component state, a session records what the page did to the outside:
  how many HTTP requests it started, which snapshot callbacks are suspended at their
  \<^verbatim>\<open>await\<close> (each with the tally map it built), and the writes it sent to the store.
\<close>

record world =
  home :: home_state
  fetch_calls :: nat
  in_flight :: "firebase_map list"
  store_writes :: "write_cmd list"

definition initial_world :: world where
  "initial_world = \<lparr> home = initial_home, fetch_calls = 0, in_flight = [], store_writes = [] \<rparr>"

text \<open>
  \<^verbatim>\<open>handleLike\<close> and \<^verbatim>\<open>handleDislike\<close>: \<^verbatim>\<open>doc\<close>, then one \<^verbatim>\<open>setDoc\<close>,
  nothing else. When \<^verbatim>\<open>doc\<close> throws, the handler throws before it writes.
\<close>

definition handleLike :: "string \<Rightarrow> world \<Rightarrow> error + world" where
  "handleLike addr w =
     (case doc_ref ''coins'' addr of
        Inl e \<Rightarrow> Inl e
      | Inr tokenRef \<Rightarrow>
          Inr (w\<lparr> store_writes := store_writes w @ [increment_cmd tokenRef ''likes''] \<rparr>))"

definition handleDislike :: "string \<Rightarrow> world \<Rightarrow> error + world" where
  "handleDislike addr w =
     (case doc_ref ''coins'' addr of
        Inl e \<Rightarrow> Inl e
      | Inr tokenRef \<Rightarrow>
          Inr (w\<lparr> store_writes := store_writes w @ [increment_cmd tokenRef ''dislikes''] \<rparr>))"

text \<open>
  The events of a session. A delivered snapshot starts the callback, which builds the
  tally map, starts the request and suspends; \<open>FetchSettled k r\<close> resumes the \<open>k\<close>-th
  suspended callback with the outcome \<open>r\<close> of its request. A click on a vote button
  runs the handler; a handler that throws leaves the session as it was.
\<close>

datatype event =
    SnapshotDelivered "(string \<times> FirebaseData) list"
  | FetchSettled nat http_outcome
  | SubscriptionFailed
  | LikeClicked string
  | DislikeClicked string
  | SearchTyped string

fun step :: "event \<Rightarrow> world \<Rightarrow> world" where
  "step (SnapshotDelivered docs) w =
     w\<lparr> fetch_calls := Suc (fetch_calls w), in_flight := in_flight w @ [firebaseData_of docs] \<rparr>"
| "step (FetchSettled k r) w =
     (if k < length (in_flight w)
      then w\<lparr> home := onSnapshot_next (in_flight w ! k) r (home w),
              in_flight := take k (in_flight w) @ drop (Suc k) (in_flight w) \<rparr>
      else w)"
| "step SubscriptionFailed w = w\<lparr> home := onSnapshot_error (home w) \<rparr>"
| "step (LikeClicked addr) w = (case handleLike addr w of Inl e \<Rightarrow> w | Inr w' \<Rightarrow> w')"
| "step (DislikeClicked addr) w = (case handleDislike addr w of Inl e \<Rightarrow> w | Inr w' \<Rightarrow> w')"
| "step (SearchTyped s) w = w\<lparr> home := (home w)\<lparr> searchTerm := s \<rparr> \<rparr>"

fun run :: "event list \<Rightarrow> world \<Rightarrow> world" where
  "run [] w = w"
| "run (e # es) w = run es (step e w)"

fun is_delivery :: "event \<Rightarrow> bool" where
  "is_delivery (SnapshotDelivered docs) = True"
| "is_delivery e = False"

fun is_settlement :: "event \<Rightarrow> bool" where
  "is_settlement (FetchSettled k r) = True"
| "is_settlement e = False"

text \<open>The events that end a callback of the subscription: a settled fetch, or the error.\<close>

fun ends_loading :: "event \<Rightarrow> bool" where
  "ends_loading (FetchSettled k r) = True"
| "ends_loading SubscriptionFailed = True"
| "ends_loading e = False"

section \<open>The remote store\<close>

text \<open>The documents of the store, by collection and document id.\<close>

type_synonym store = "(string \<times> string) \<rightharpoonup> FirebaseData"

text \<open>
  Modelled from the spec: what the store does with a field of a write. The code of
  \<^verbatim>\<open>setDoc\<close> and \<^verbatim>\<open>increment\<close> is the Firestore client and server, which the
  repository imports and does not contain. An increment is a numeric add; on a field
  that does not exist it leaves the operand.
\<close>

definition apply_field :: "FirebaseData \<Rightarrow> string \<times> field_value \<Rightarrow> FirebaseData" where
  "apply_field d fv =
     (case fv of (f, Increment n) \<Rightarrow> d(f \<mapsto> (case d f of None \<Rightarrow> n | Some v \<Rightarrow> v + n)))"

text \<open>
  Modelled from the spec: what the store does with a write, the missing code being
  that of \<^verbatim>\<open>setDoc\<close>. The document is created if absent; with \<^verbatim>\<open>merge\<close> the fields
  the write does not name are kept, without it the document is replaced.
\<close>

definition apply_write :: "write_cmd \<Rightarrow> store \<Rightarrow> store" where
  "apply_write c st =
     (let key = (w_collection c, w_id c);
          base = (if w_merge c then (case st key of None \<Rightarrow> Map.empty | Some d \<Rightarrow> d)
                  else Map.empty)
      in st(key \<mapsto> foldl apply_field base (w_data c)))"

text \<open>
  Modelled from the spec: the mapping that the subscription delivers for a state of
  the store, the missing code being that of \<^verbatim>\<open>onSnapshot\<close>: the documents of the
  collection \<^verbatim>\<open>coins\<close> by their id.
\<close>

definition coins_snapshot :: "store \<Rightarrow> firebase_map" where
  "coins_snapshot st = (\<lambda>doc_id. st (''coins'', doc_id))"

section \<open>The derived view: search filter and sort\<close>

text \<open>The predicate of \<^verbatim>\<open>.filter\<close>.\<close>

definition matches_search :: "(string \<Rightarrow> string) \<Rightarrow> string \<Rightarrow> Token \<Rightarrow> bool" where
  "matches_search unicode_lower term token =
     (includes_str (toLowerCase unicode_lower (name token)) (toLowerCase unicode_lower term) \<or>
      includes_str (toLowerCase unicode_lower (address token)) (toLowerCase unicode_lower term))"

text \<open>The comparator of \<^verbatim>\<open>.sort\<close>: \<^verbatim>\<open>(a, b) => b.likes - a.likes\<close>.\<close>

definition compare_likes :: "Token \<Rightarrow> Token \<Rightarrow> int" where
  "compare_likes a b = likes b - likes a"

text \<open>
  \<^verbatim>\<open>Array.prototype.sort\<close> with a comparator is a stable sort: an element goes in
  front of the first later element that the comparator does not put before it.
\<close>

fun insert_by :: "('a \<Rightarrow> 'a \<Rightarrow> int) \<Rightarrow> 'a \<Rightarrow> 'a list \<Rightarrow> 'a list" where
  "insert_by cmp x [] = [x]"
| "insert_by cmp x (y # ys) = (if cmp x y \<le> 0 then x # y # ys else y # insert_by cmp x ys)"

fun sort_by :: "('a \<Rightarrow> 'a \<Rightarrow> int) \<Rightarrow> 'a list \<Rightarrow> 'a list" where
  "sort_by cmp [] = []"
| "sort_by cmp (x # xs) = insert_by cmp x (sort_by cmp xs)"

definition filteredTokens :: "(string \<Rightarrow> string) \<Rightarrow> Token list \<Rightarrow> string \<Rightarrow> Token list" where
  "filteredTokens unicode_lower toks term = filter (matches_search unicode_lower term) toks"

definition filteredAndSortedTokens ::
  "(string \<Rightarrow> string) \<Rightarrow> Token list \<Rightarrow> string \<Rightarrow> Token list" where
  "filteredAndSortedTokens unicode_lower toks term =
     sort_by compare_likes (filteredTokens unicode_lower toks term)"

text \<open>The words of the search property: \<open>needle\<close> occurs in \<open>hay\<close> as a substring.\<close>

definition is_substring :: "string \<Rightarrow> string \<Rightarrow> bool" where
  "is_substring needle hay = (\<exists>before after. hay = before @ needle @ after)"

text \<open>
  Case-insensitive occurrence, said without lower-casing: two characters are the same
  letter when they are equal or are the two cases of one ASCII letter, and the needle
  occurs in the hay when some piece of the hay matches it letter by letter.
\<close>

definition same_letter :: "char \<Rightarrow> char \<Rightarrow> bool" where
  "same_letter c d = (c = d \<or> (c, d) \<in> set case_pairs \<or> (d, c) \<in> set case_pairs)"

definition ci_substring :: "string \<Rightarrow> string \<Rightarrow> bool" where
  "ci_substring needle hay =
     (\<exists>before piece after. hay = before @ piece @ after \<and> list_all2 same_letter needle piece)"

section \<open>Example data\<close>

text \<open>A catalog entry and a view entry with the given address and name.\<close>

definition example_entry :: "string \<Rightarrow> string \<Rightarrow> JupiterToken" where
  "example_entry addr nm =
     \<lparr> address = addr, name = nm, symbol = ''SYM'', decimals = 9, logoURI = ''https://x/y.png'',
       tags = [''community''], daily_volume = 0, freeze_authority = None,
       mint_authority = None \<rparr>"

definition example_token :: "string \<Rightarrow> string \<Rightarrow> int \<Rightarrow> Token" where
  "example_token addr nm n =
     \<lparr> address = addr, name = nm, symbol = ''SYM'', decimals = 9, logoURI = ''https://x/y.png'',
       tags = [''community''], daily_volume = 0, freeze_authority = None,
       mint_authority = None, likes = n, dislikes = 0 \<rparr>"

text \<open>Four entries with the like counts 3, 3, 5, 1.\<close>

definition example_ranking :: "Token list" where
  "example_ranking =
     [example_token ''A'' ''Alpha'' 3, example_token ''B'' ''Beta'' 3,
      example_token ''C'' ''Gamma'' 5, example_token ''D'' ''Delta'' 1]"

text \<open>Two entries to search among.\<close>

definition example_search :: "Token list" where
  "example_search = [example_token ''A1'' ''Foo Token'' 0, example_token ''B2'' ''Bar'' 0]"


text \<open>A session in which the four entries are shown.\<close>

definition showing_world :: world where
  "showing_world =
     \<lparr> home = \<lparr> tokens = example_ranking, searchTerm = [], isLoading = False \<rparr>,
       fetch_calls = 1, in_flight = [], store_writes = [] \<rparr>"

text \<open>
  A session: the first snapshot is empty and is joined with a catalog of one entry;
  a like is clicked; the snapshot with the new tally arrives and is joined.
\<close>

definition vote_scenario :: "event list" where
  "vote_scenario =
     [SnapshotDelivered [],
      FetchSettled 0 (Response 200 (JsonArray [TokenItem (example_entry ''A'' ''Foo'')])),
      LikeClicked ''A'',
      SnapshotDelivered [(''A'', [''likes'' \<mapsto> 1, ''dislikes'' \<mapsto> 0])],
      FetchSettled 0 (Response 200 (JsonArray [TokenItem (example_entry ''A'' ''Foo'')]))]"

text \<open>Events among which no callback of the subscription completes.\<close>

definition quiet_events :: "event list" where
  "quiet_events =
     [LikeClicked ''A'', DislikeClicked ''A'', SearchTyped ''foo'', SnapshotDelivered []]"

text \<open>A stored document with a like count and one more field, and a store holding it.\<close>

definition example_doc :: FirebaseData where
  "example_doc = [''likes'' \<mapsto> 4, ''flagged'' \<mapsto> 1]"

definition example_store :: store where
  "example_store = [(''coins'', ''A'') \<mapsto> example_doc]"

text \<open>The entries of a sequence all have ASCII names and addresses.\<close>

fun ascii_entries :: "Token list \<Rightarrow> bool" where
  "ascii_entries [] = True"
| "ascii_entries (e # es) = (is_ascii (name e) \<and> is_ascii (address e) \<and> ascii_entries es)"

text \<open>The four entries are shown and a second snapshot has just been delivered.\<close>

definition second_delivery :: world where
  "second_delivery = step (SnapshotDelivered [(''B'', [''likes'' \<mapsto> 7])]) showing_world"

text \<open>Events before any callback of the subscription has completed.\<close>

definition waiting_events :: "event list" where
  "waiting_events = [SnapshotDelivered [], LikeClicked ''A'', SearchTyped ''foo'']"

section \<open>The join\<close>

lemma catalog_part_join: "catalog_part (join_token T j) = j"
  by (simp add: catalog_part_def join_token_def)

lemma likes_join:
  "likes (join_token T j) =
     (case T (address j) of None \<Rightarrow> 0 | Some d \<Rightarrow> tally_likes d)"
  by (simp add: join_token_def field_or_zero_def tally_likes_def split: option.splits)

lemma dislikes_join:
  "dislikes (join_token T j) =
     (case T (address j) of None \<Rightarrow> 0 | Some d \<Rightarrow> tally_dislikes d)"
  by (simp add: join_token_def field_or_zero_def tally_dislikes_def split: option.splits)

text \<open>
  C1. For every tally mapping \<open>T\<close> and catalog \<open>C\<close>, the merged sequence has one entry
  per catalog entry, in catalog order: stripping the counts gives back \<open>C\<close> itself.
  The counts of each entry are those of \<open>T\<close> at the entry's address when \<open>T\<close> has a
  tally there (a count the tally does not set reads as 0) and 0, 0 otherwise. Since
  the addresses of the merged sequence are those of \<open>C\<close>, an address of \<open>T\<close> that is
  absent from \<open>C\<close> gets no entry.
\<close>

theorem C1_merge_one_entry_per_catalog_entry:
  "map catalog_part (combinedTokens T C) = C \<and>
   map likes (combinedTokens T C) =
     map (\<lambda>j. case T (address j) of None \<Rightarrow> 0 | Some d \<Rightarrow> tally_likes d) C \<and>
   map dislikes (combinedTokens T C) =
     map (\<lambda>j. case T (address j) of None \<Rightarrow> 0 | Some d \<Rightarrow> tally_dislikes d) C \<and>
   address ` set (combinedTokens T C) = address ` set C"
proof -
  have a: "map catalog_part (combinedTokens T C) = C"
    by (simp add: combinedTokens_def catalog_part_join comp_def)
  have b: "map likes (combinedTokens T C) =
      map (\<lambda>j. case T (address j) of None \<Rightarrow> 0 | Some d \<Rightarrow> tally_likes d) C"
    by (simp add: combinedTokens_def likes_join comp_def)
  have c: "map dislikes (combinedTokens T C) =
      map (\<lambda>j. case T (address j) of None \<Rightarrow> 0 | Some d \<Rightarrow> tally_dislikes d) C"
    by (simp add: combinedTokens_def dislikes_join comp_def)
  have d: "address ` set (combinedTokens T C) = address ` set C"
    by (simp add: combinedTokens_def join_token_def image_image)
  from a b c d show ?thesis by blast
qed

section \<open>Facts about strings and document paths\<close>

lemma starts_with_iff: "starts_with hay needle \<longleftrightarrow> (\<exists>after. hay = needle @ after)"
  by (induction hay needle rule: starts_with.induct) auto

lemma includes_str_iff: "includes_str hay needle \<longleftrightarrow> is_substring needle hay"
proof (induction hay)
  case Nil
  show ?case by (simp add: is_substring_def)
next
  case (Cons h hs)
  have "is_substring needle (h # hs) \<longleftrightarrow>
        (\<exists>after. h # hs = needle @ after) \<or> is_substring needle hs"
    unfolding is_substring_def
    by (auto simp: Cons_eq_append_conv)
  with Cons show ?case by (simp add: starts_with_iff del: starts_with.simps)
qed

lemma includes_str_Nil: "includes_str hay []"
proof -
  have "hay = [] @ [] @ hay" by simp
  then have "is_substring [] hay" unfolding is_substring_def by blast
  then show ?thesis by (simp add: includes_str_iff)
qed

lemma toLowerCase_Nil: "toLowerCase ul [] = []"
  by (simp add: toLowerCase_def)

lemma toLowerCase_ascii: "is_ascii s \<Longrightarrow> toLowerCase ul s = map ascii_lower_char s"
  by (simp add: toLowerCase_def)

lemma case_pairs_fst: "distinct (map fst case_pairs)"
  by (simp add: case_pairs_def)

lemma case_pairs_snd: "distinct (map snd case_pairs)"
  by (simp add: case_pairs_def)

lemma case_pairs_disjoint: "set (map snd case_pairs) \<inter> set (map fst case_pairs) = {}"
  by (simp add: case_pairs_def)

lemma lower_of_upper: "(c, l) \<in> set case_pairs \<Longrightarrow> map_of case_pairs c = Some l"
  using case_pairs_fst by simp

lemma lower_not_upper: "(c, l) \<in> set case_pairs \<Longrightarrow> map_of case_pairs l = None"
proof -
  assume "(c, l) \<in> set case_pairs"
  then have "l \<in> set (map snd case_pairs)" by force
  with case_pairs_disjoint have "l \<notin> set (map fst case_pairs)" by blast
  then show ?thesis by (simp add: map_of_eq_None_iff)
qed

lemma upper_unique: "(c, l) \<in> set case_pairs \<Longrightarrow> (d, l) \<in> set case_pairs \<Longrightarrow> c = d"
proof -
  assume a: "(c, l) \<in> set case_pairs" and b: "(d, l) \<in> set case_pairs"
  from case_pairs_snd have "inj_on snd (set case_pairs)"
    by (simp add: distinct_map)
  from inj_onD [OF this _ a b] show ?thesis by simp
qed

lemma same_letter_iff: "ascii_lower_char c = ascii_lower_char d \<longleftrightarrow> same_letter c d"
proof (cases "map_of case_pairs c")
  case cn: None
  show ?thesis
  proof (cases "map_of case_pairs d")
    case None
    with cn show ?thesis
      using lower_of_upper [of c d] lower_of_upper [of d c]
      by (auto simp: ascii_lower_char_def same_letter_def)
  next
    case (Some l)
    then have dl: "(d, l) \<in> set case_pairs" using case_pairs_fst by simp
    from cn Some dl show ?thesis
      using lower_of_upper [of c d] lower_of_upper [of d c]
      by (auto simp: ascii_lower_char_def same_letter_def)
  qed
next
  case cs: (Some l)
  then have cl: "(c, l) \<in> set case_pairs" using case_pairs_fst by simp
  show ?thesis
  proof (cases "map_of case_pairs d")
    case None
    with cs cl show ?thesis
      using lower_of_upper [of c d] lower_of_upper [of d c]
      by (auto simp: ascii_lower_char_def same_letter_def)
  next
    case (Some l')
    then have dl: "(d, l') \<in> set case_pairs" using case_pairs_fst by simp
    from cs Some cl dl show ?thesis
      using lower_not_upper [of c d] lower_not_upper [of d c] upper_unique [of c l d]
      by (auto simp: ascii_lower_char_def same_letter_def)
  qed
qed

lemma map_lower_eq:
  "map ascii_lower_char xs = map ascii_lower_char ys \<longleftrightarrow> list_all2 same_letter ys xs"
proof (induction xs arbitrary: ys)
  case Nil
  show ?case by simp
next
  case (Cons x xs)
  show ?case
  proof (cases ys)
    case Nil
    then show ?thesis by simp
  next
    case (Cons y ys')
    with Cons.IH [of ys'] show ?thesis
      using same_letter_iff [of y x] by auto
  qed
qed

lemma is_substring_map:
  "is_substring (map f needle) (map f hay) \<longleftrightarrow>
     (\<exists>before piece after. hay = before @ piece @ after \<and> map f piece = map f needle)"
proof
  assume "is_substring (map f needle) (map f hay)"
  then obtain b a where "map f hay = b @ (map f needle @ a)"
    unfolding is_substring_def by auto
  then have "\<exists>us vs. hay = us @ vs \<and> b = map f us \<and> map f needle @ a = map f vs"
    by (simp only: map_eq_append_conv)
  then obtain us vs where h: "hay = us @ vs" and v: "map f needle @ a = map f vs"
    by blast
  from v have "map f vs = map f needle @ a" by simp
  then have "\<exists>p a'. vs = p @ a' \<and> map f needle = map f p \<and> a = map f a'"
    by (simp only: map_eq_append_conv)
  then obtain p a' where "vs = p @ a'" and "map f p = map f needle"
    by auto
  with h have "hay = us @ p @ a' \<and> map f p = map f needle" by simp
  then show "\<exists>before piece after. hay = before @ piece @ after \<and> map f piece = map f needle"
    by blast
next
  assume "\<exists>before piece after. hay = before @ piece @ after \<and> map f piece = map f needle"
  then obtain b p a where "hay = b @ p @ a" and "map f p = map f needle" by blast
  then have "map f hay = map f b @ map f needle @ map f a" by simp
  then show "is_substring (map f needle) (map f hay)"
    unfolding is_substring_def by blast
qed

lemma includes_lower_ci:
  "includes_str (map ascii_lower_char hay) (map ascii_lower_char needle) \<longleftrightarrow>
     ci_substring needle hay"
  by (simp add: includes_str_iff is_substring_map ci_substring_def map_lower_eq)

lemma matches_ascii:
  "is_ascii term \<Longrightarrow> is_ascii (name e) \<Longrightarrow> is_ascii (address e) \<Longrightarrow>
   matches_search ul term e \<longleftrightarrow> ci_substring term (name e) \<or> ci_substring term (address e)"
  by (simp add: matches_search_def toLowerCase_ascii includes_lower_ci)

lemma split_slash_plain: "CHR ''/'' \<notin> set s \<Longrightarrow> split_slash s = [s]"
  by (induction s) auto

lemma no_double_slash: "CHR ''/'' \<notin> set s \<Longrightarrow> \<not> includes_str s ''//''"
  by (induction s) auto

lemma doc_ref_valid: "valid_doc_id addr \<Longrightarrow> doc_ref ''coins'' addr = Inr (''coins'', addr)"
  by (simp add: doc_ref_def valid_doc_id_def split_slash_plain no_double_slash)

lemma doc_ref_empty: "doc_ref ''coins'' [] = Inl InvalidArgument"
  by (simp add: doc_ref_def)

lemma doc_ref_odd: "doc_ref ''coins'' ''a/b'' = Inl InvalidArgument"
  by (simp add: doc_ref_def)

lemma doc_ref_nested: "doc_ref ''coins'' ''a/b/c'' = Inr (''coins/a/b'', ''c'')"
  by (simp add: doc_ref_def)

section \<open>The catalog fetch and the snapshot callback\<close>



lemma fetch_array: "response_ok st \<Longrightarrow>
    fetchJupiterTokens (Response st (JsonArray items)) = Inr (ArrayValue items)"
  by (simp add: fetchJupiterTokens_def fetch_try_def)



lemma not_loading_onSnapshot_next: "\<not> isLoading (onSnapshot_next T r s)"
  by (auto simp: onSnapshot_next_def onSnapshot_callback_def snapshot_try_def
      split: sum.splits fetched.splits option.splits)



lemma items_as_tokens_map: "items_as_tokens (map TokenItem C) = Some C"
  by (induction C) simp_all

lemma onSnapshot_next_joined:
  "response_ok st \<Longrightarrow>
   onSnapshot_next T (Response st (JsonArray (map TokenItem C))) s =
     s\<lparr> tokens := combinedTokens T C, isLoading := False \<rparr>"
  by (simp add: onSnapshot_next_def onSnapshot_callback_def snapshot_try_def fetch_array
      items_as_tokens_map)




section \<open>Votes and fetches in a session\<close>

lemma handleLike_valid:
  "valid_doc_id addr \<Longrightarrow>
   handleLike addr w = Inr (w\<lparr> store_writes := store_writes w @ [like_cmd addr] \<rparr>)"
  by (simp add: handleLike_def doc_ref_valid increment_cmd_def like_cmd_def)

lemma handleDislike_valid:
  "valid_doc_id addr \<Longrightarrow>
   handleDislike addr w = Inr (w\<lparr> store_writes := store_writes w @ [dislike_cmd addr] \<rparr>)"
  by (simp add: handleDislike_def doc_ref_valid increment_cmd_def dislike_cmd_def)

lemma step_like_frame:
  "home (step (LikeClicked addr) w) = home w \<and>
   fetch_calls (step (LikeClicked addr) w) = fetch_calls w \<and>
   in_flight (step (LikeClicked addr) w) = in_flight w"
  by (auto simp: handleLike_def split: sum.splits)

lemma step_dislike_frame:
  "home (step (DislikeClicked addr) w) = home w \<and>
   fetch_calls (step (DislikeClicked addr) w) = fetch_calls w \<and>
   in_flight (step (DislikeClicked addr) w) = in_flight w"
  by (auto simp: handleDislike_def split: sum.splits)

lemma fetch_calls_step:
  "fetch_calls (step e w) = fetch_calls w + (if is_delivery e then 1 else 0)"
  by (cases e) (simp_all add: step_like_frame step_dislike_frame del: step.simps(4,5))

lemma fetch_calls_run:
  "fetch_calls (run es w) = fetch_calls w + length (filter is_delivery es)"
  by (induction es arbitrary: w) (simp_all add: fetch_calls_step del: step.simps)

text \<open>
  C2, as the code has it. The catalog is fetched once for every snapshot that is
  delivered: each delivery starts one more request and suspends one more callback with
  the tally map of that snapshot, so over any sequence of events the number of requests
  grows by the number of deliveries. When the request of a callback returns a catalog,
  the tokens become the join of that callback's tally map with that catalog, whatever
  was shown or fetched before: no earlier catalog is reused.
\<close>

theorem C2_fetch_once_per_delivery:
  "fetch_calls (run es w) = fetch_calls w + length (filter is_delivery es) \<and>
   fetch_calls (step (SnapshotDelivered docs) w) = Suc (fetch_calls w) \<and>
   in_flight (step (SnapshotDelivered docs) w) = in_flight w @ [firebaseData_of docs] \<and>
   (k < length (in_flight w) \<and> response_ok st \<longrightarrow>
      tokens (home (step (FetchSettled k (Response st (JsonArray (map TokenItem C)))) w)) =
        combinedTokens (in_flight w ! k) C)"
  by (simp add: fetch_calls_run onSnapshot_next_joined)

text \<open>
  C2 as stated fails: in the session where a tally update arrives after a vote, the
  catalog has been requested twice, not at most once.
\<close>

theorem C2_fetch_at_most_once_counterexample:
  "\<not> fetch_calls (run vote_scenario initial_world) \<le> 1"
  by (simp add: vote_scenario_def initial_world_def handleLike_valid valid_doc_id_def)

theorem C2_fetch_once_per_delivery_witness:
  "0 < length (in_flight second_delivery) \<and> response_ok 200 \<and>
   fetch_calls second_delivery = 2 \<and>
   map address (tokens (home second_delivery)) = [''A'', ''B'', ''C'', ''D''] \<and>
   tokens (home (step (FetchSettled 0
       (Response 200 (JsonArray (map TokenItem [example_entry ''B'' ''Bar''])))) second_delivery)) =
     [example_token ''B'' ''Bar'' 7]"
proof -
  have h: "0 < length (in_flight second_delivery)"
    by (simp add: second_delivery_def showing_world_def)
  have o: "response_ok 200"
    by (simp add: response_ok_def)
  have f: "fetch_calls second_delivery = 2"
    by (simp add: second_delivery_def showing_world_def)
  have t: "map address (tokens (home second_delivery)) = [''A'', ''B'', ''C'', ''D'']"
    by (simp add: second_delivery_def showing_world_def example_ranking_def example_token_def)
  have j: "combinedTokens (in_flight second_delivery ! 0) [example_entry ''B'' ''Bar''] =
      [example_token ''B'' ''Bar'' 7]"
    by (simp add: second_delivery_def showing_world_def firebaseData_of_def combinedTokens_def
        join_token_def field_or_zero_def example_entry_def example_token_def)
  from C2_fetch_once_per_delivery [of _ second_delivery _ 0 200 "[example_entry ''B'' ''Bar'']"] h o
  have "tokens (home (step (FetchSettled 0
       (Response 200 (JsonArray (map TokenItem [example_entry ''B'' ''Bar''])))) second_delivery)) =
     combinedTokens (in_flight second_delivery ! 0) [example_entry ''B'' ''Bar'']"
    by blast
  with j have "tokens (home (step (FetchSettled 0
       (Response 200 (JsonArray (map TokenItem [example_entry ''B'' ''Bar''])))) second_delivery)) =
     [example_token ''B'' ''Bar'' 7]"
    by simp
  with h o f t show ?thesis by (intro conjI)
qed

section \<open>The search filter and the sort\<close>

lemma insert_by_likes: "insert_by compare_likes x ys = insort_key (\<lambda>t. - likes t) x ys"
  by (induction ys) (auto simp: compare_likes_def)

lemma sort_by_likes: "sort_by compare_likes xs = sort_key (\<lambda>t. - likes t) xs"
  by (induction xs) (auto simp: insert_by_likes)

lemma set_sort_by_likes: "set (sort_by compare_likes xs) = set xs"
  by (simp add: sort_by_likes)

lemma filter_ascii:
  "is_ascii term \<Longrightarrow> ascii_entries toks \<Longrightarrow>
   filter (matches_search ul term) toks =
     filter (\<lambda>e. ci_substring term (name e) \<or> ci_substring term (address e)) toks"
  by (induction toks) (simp_all add: matches_ascii)

lemma example_search_foo:
  "filteredAndSortedTokens ul example_search ''foo'' = [example_token ''A1'' ''Foo Token'' 0]"
  by (simp add: filteredAndSortedTokens_def filteredTokens_def example_search_def
      matches_search_def toLowerCase_def ascii_lower_char_def case_pairs_def example_token_def)

text \<open>
  C4. For every search term, the entries that are shown are exactly the entries whose
  lower-cased name or lower-cased address has the lower-cased term as a substring;
  the filter step keeps them in their order. The empty term keeps every entry. On
  ASCII strings this is case-insensitive occurrence said without lower-casing: the
  filter keeps exactly the entries in whose name or address some piece matches the
  term letter by letter up to the case of the letters. The term \<^verbatim>\<open>foo\<close> keeps the
  entry named \<^verbatim>\<open>Foo Token\<close> and drops the entry named \<^verbatim>\<open>Bar\<close> with the
  address \<^verbatim>\<open>B2\<close>.
\<close>

theorem C4_search_filter_exact:
  "set (filteredAndSortedTokens ul toks term) =
     {e \<in> set toks. is_substring (toLowerCase ul term) (toLowerCase ul (name e)) \<or>
                     is_substring (toLowerCase ul term) (toLowerCase ul (address e))} \<and>
   filteredTokens ul toks term =
     filter (\<lambda>e. is_substring (toLowerCase ul term) (toLowerCase ul (name e)) \<or>
                 is_substring (toLowerCase ul term) (toLowerCase ul (address e))) toks \<and>
   filteredTokens ul toks [] = toks \<and>
   set (filteredAndSortedTokens ul toks []) = set toks \<and>
   (is_ascii term \<and> ascii_entries toks \<longrightarrow>
      filteredTokens ul toks term =
        filter (\<lambda>e. ci_substring term (name e) \<or> ci_substring term (address e)) toks) \<and>
   filteredAndSortedTokens ul example_search ''foo'' = [example_token ''A1'' ''Foo Token'' 0]"
proof -
  have m: "matches_search ul term e \<longleftrightarrow>
      is_substring (toLowerCase ul term) (toLowerCase ul (name e)) \<or>
      is_substring (toLowerCase ul term) (toLowerCase ul (address e))" for e
    by (simp add: matches_search_def includes_str_iff)
  have f: "filteredTokens ul toks term =
     filter (\<lambda>e. is_substring (toLowerCase ul term) (toLowerCase ul (name e)) \<or>
                 is_substring (toLowerCase ul term) (toLowerCase ul (address e))) toks"
    unfolding filteredTokens_def using m by presburger
  have a: "set (filteredAndSortedTokens ul toks term) =
     {e \<in> set toks. is_substring (toLowerCase ul term) (toLowerCase ul (name e)) \<or>
                     is_substring (toLowerCase ul term) (toLowerCase ul (address e))}"
    by (simp add: filteredAndSortedTokens_def set_sort_by_likes f)
  have e: "filteredTokens ul toks [] = toks"
    by (simp add: filteredTokens_def matches_search_def toLowerCase_Nil includes_str_Nil)
  have s: "set (filteredAndSortedTokens ul toks []) = set toks"
    by (simp add: filteredAndSortedTokens_def set_sort_by_likes e)
  have c: "is_ascii term \<and> ascii_entries toks \<longrightarrow>
      filteredTokens ul toks term =
        filter (\<lambda>e. ci_substring term (name e) \<or> ci_substring term (address e)) toks"
    by (simp add: filteredTokens_def filter_ascii)
  from a f e s c example_search_foo [of ul] show ?thesis by (intro conjI)
qed

theorem C4_search_filter_exact_witness:
  "is_ascii ''foo'' \<and> ascii_entries example_search \<and>
   filter (\<lambda>e. ci_substring ''foo'' (name e) \<or> ci_substring ''foo'' (address e)) example_search =
     [example_token ''A1'' ''Foo Token'' 0] \<and>
   map name example_search = [''Foo Token'', ''Bar'']"
proof -
  have h: "is_ascii ''foo'' \<and> ascii_entries example_search"
    by (simp add: example_search_def example_token_def)
  have v: "filteredTokens (\<lambda>s. s) example_search ''foo'' = [example_token ''A1'' ''Foo Token'' 0]"
    by (simp add: filteredTokens_def example_search_def
      matches_search_def toLowerCase_def ascii_lower_char_def case_pairs_def example_token_def)
  have n: "map name example_search = [''Foo Token'', ''Bar'']"
    by (simp add: example_search_def example_token_def)
  from C4_search_filter_exact [of "\<lambda>s. s" example_search "''foo''"] h
  have "filteredTokens (\<lambda>s. s) example_search ''foo'' =
        filter (\<lambda>e. ci_substring ''foo'' (name e) \<or> ci_substring ''foo'' (address e))
          example_search"
    by blast
  with v have "filter (\<lambda>e. ci_substring ''foo'' (name e) \<or> ci_substring ''foo'' (address e))
      example_search = [example_token ''A1'' ''Foo Token'' 0]"
    by simp
  with h n show ?thesis by blast
qed

lemma example_ranking_sorted:
  "filteredAndSortedTokens ul example_ranking [] =
     [example_token ''C'' ''Gamma'' 5, example_token ''A'' ''Alpha'' 3,
      example_token ''B'' ''Beta'' 3, example_token ''D'' ''Delta'' 1]"
  by (simp add: filteredAndSortedTokens_def filteredTokens_def example_ranking_def
      matches_search_def toLowerCase_Nil includes_str_Nil compare_likes_def example_token_def)

text \<open>
  C5. The shown sequence holds the filtered entries, each as often as the filtered
  set does. Whenever the entry at position \<open>i\<close> has more likes than the entry at
  position \<open>j\<close>, it comes first (\<open>i < j\<close>). Entries with the same like count keep
  the order they had in the filtered input, and no other key is used.
\<close>

theorem C5_sort_descending_stable:
  "mset (filteredAndSortedTokens ul toks term) = mset (filteredTokens ul toks term) \<and>
   (\<forall>i j. i < length (filteredAndSortedTokens ul toks term) \<and>
          j < length (filteredAndSortedTokens ul toks term) \<and>
          likes (filteredAndSortedTokens ul toks term ! i) >
            likes (filteredAndSortedTokens ul toks term ! j)
          \<longrightarrow> i < j) \<and>
   (\<forall>n. filter (\<lambda>t. likes t = n) (filteredAndSortedTokens ul toks term) =
        filter (\<lambda>t. likes t = n) (filteredTokens ul toks term))"
proof -
  let ?xs = "filteredTokens ul toks term"
  let ?ys = "filteredAndSortedTokens ul toks term"
  have ys: "?ys = sort_key (\<lambda>t. - likes t) ?xs"
    by (simp add: filteredAndSortedTokens_def sort_by_likes)
  have a: "mset ?ys = mset ?xs"
    by (simp add: ys)
  have srt: "sorted (map (\<lambda>t. - likes t) ?ys)"
    by (simp add: ys)
  have b: "i < j" if "i < length ?ys" "j < length ?ys" "likes (?ys ! i) > likes (?ys ! j)" for i j
  proof (rule ccontr)
    assume "\<not> i < j"
    then have "j \<le> i" by simp
    with srt that(1) have "map (\<lambda>t. - likes t) ?ys ! j \<le> map (\<lambda>t. - likes t) ?ys ! i"
      by (simp add: sorted_iff_nth_mono del: nth_map)
    with that show False by simp
  qed
  have c: "filter (\<lambda>t. likes t = n) ?ys = filter (\<lambda>t. likes t = n) ?xs" for n
  proof -
    have "filter (\<lambda>t. - likes t = - n) (sort_key (\<lambda>t. - likes t) ?xs) =
          filter (\<lambda>t. - likes t = - n) ?xs"
      by (rule sort_key_stable)
    then show ?thesis by (simp add: ys)
  qed
  from a b c show ?thesis by blast
qed

theorem C5_sort_descending_stable_witness:
  "(0 < length (filteredAndSortedTokens (\<lambda>s. s) example_ranking []) \<and>
    3 < length (filteredAndSortedTokens (\<lambda>s. s) example_ranking []) \<and>
    likes (filteredAndSortedTokens (\<lambda>s. s) example_ranking [] ! 0) >
      likes (filteredAndSortedTokens (\<lambda>s. s) example_ranking [] ! 3)) \<and> (0::nat) < 3 \<and>
   map address (filter (\<lambda>t. likes t = 3) (filteredAndSortedTokens (\<lambda>s. s) example_ranking [])) =
     [''A'', ''B'']"
proof -
  have h: "0 < length (filteredAndSortedTokens (\<lambda>s. s) example_ranking []) \<and>
    3 < length (filteredAndSortedTokens (\<lambda>s. s) example_ranking []) \<and>
    likes (filteredAndSortedTokens (\<lambda>s. s) example_ranking [] ! 0) >
      likes (filteredAndSortedTokens (\<lambda>s. s) example_ranking [] ! 3)"
    by (simp add: example_ranking_sorted) (simp add: example_token_def)
  from C5_sort_descending_stable [of "\<lambda>s. s" example_ranking "[]"]
  have ord: "\<forall>i j. i < length (filteredAndSortedTokens (\<lambda>s. s) example_ranking []) \<and>
          j < length (filteredAndSortedTokens (\<lambda>s. s) example_ranking []) \<and>
          likes (filteredAndSortedTokens (\<lambda>s. s) example_ranking [] ! i) >
            likes (filteredAndSortedTokens (\<lambda>s. s) example_ranking [] ! j)
          \<longrightarrow> i < j"
    and stab: "\<forall>n. filter (\<lambda>t. likes t = n) (filteredAndSortedTokens (\<lambda>s. s) example_ranking []) =
        filter (\<lambda>t. likes t = n) (filteredTokens (\<lambda>s. s) example_ranking [])"
    by blast+
  from ord h have c: "(0::nat) < 3" by blast
  from stab have "filter (\<lambda>t. likes t = 3) (filteredAndSortedTokens (\<lambda>s. s) example_ranking []) =
        filter (\<lambda>t. likes t = 3) (filteredTokens (\<lambda>s. s) example_ranking [])" by blast
  then have s: "map address (filter (\<lambda>t. likes t = 3)
      (filteredAndSortedTokens (\<lambda>s. s) example_ranking [])) = [''A'', ''B'']"
    by (simp add: filteredTokens_def example_ranking_def matches_search_def toLowerCase_Nil
        includes_str_Nil example_token_def)
  from h c s show ?thesis by blast
qed

section \<open>Votes leave the component state alone\<close>

lemma tokens_step: "\<not> is_settlement e \<Longrightarrow> tokens (home (step e w)) = tokens (home w)"
  by (cases e) (simp_all add: step_like_frame step_dislike_frame onSnapshot_error_def
      del: step.simps(4,5))

lemma tokens_run:
  "filter is_settlement es = [] \<Longrightarrow> tokens (home (run es w)) = tokens (home w)"
  by (induction es arbitrary: w) (simp_all add: tokens_step del: step.simps split: if_splits)

text \<open>
  C6, as the code has it. For an address that names a document of the collection (not
  empty, no slash), a like or a dislike sends exactly one write to the store, for that
  address and naming only the field of the vote, and changes nothing else of the
  session. For every address the component state (tokens, search term, loading flag)
  is left as it was. The token sequence changes only when a snapshot callback
  completes: over events none of which is such a completion it stays the same.
\<close>

theorem C6_vote_issues_one_increment:
  "(valid_doc_id addr \<longrightarrow>
      handleLike addr w = Inr (w\<lparr> store_writes := store_writes w @ [like_cmd addr] \<rparr>) \<and>
      handleDislike addr w = Inr (w\<lparr> store_writes := store_writes w @ [dislike_cmd addr] \<rparr>)) \<and>
   w_collection (like_cmd addr) = ''coins'' \<and> w_id (like_cmd addr) = addr \<and>
   map fst (w_data (like_cmd addr)) = [''likes''] \<and>
   w_collection (dislike_cmd addr) = ''coins'' \<and> w_id (dislike_cmd addr) = addr \<and>
   map fst (w_data (dislike_cmd addr)) = [''dislikes''] \<and>
   home (step (LikeClicked addr) w) = home w \<and>
   home (step (DislikeClicked addr) w) = home w \<and>
   (filter is_settlement es = [] \<longrightarrow> tokens (home (run es w)) = tokens (home w))"
proof -
  have a: "valid_doc_id addr \<longrightarrow>
      handleLike addr w = Inr (w\<lparr> store_writes := store_writes w @ [like_cmd addr] \<rparr>) \<and>
      handleDislike addr w = Inr (w\<lparr> store_writes := store_writes w @ [dislike_cmd addr] \<rparr>)"
    by (simp add: handleLike_valid handleDislike_valid)
  have b: "w_collection (like_cmd addr) = ''coins'' \<and> w_id (like_cmd addr) = addr \<and>
      map fst (w_data (like_cmd addr)) = [''likes''] \<and>
      w_collection (dislike_cmd addr) = ''coins'' \<and> w_id (dislike_cmd addr) = addr \<and>
      map fst (w_data (dislike_cmd addr)) = [''dislikes'']"
    by (simp add: like_cmd_def dislike_cmd_def)
  have c: "home (step (LikeClicked addr) w) = home w \<and>
      home (step (DislikeClicked addr) w) = home w"
    using step_like_frame [of addr w] step_dislike_frame [of addr w] by blast
  have d: "filter is_settlement es = [] \<longrightarrow> tokens (home (run es w)) = tokens (home w)"
    using tokens_run by blast
  from a b c d show ?thesis by blast
qed

text \<open>
  C6 as stated fails for an address that \<^verbatim>\<open>doc\<close> refuses: a like for the empty
  address sends no write at all.
\<close>

theorem C6_empty_address_counterexample:
  "\<not> length (store_writes (step (LikeClicked []) showing_world)) = 1"
  by (simp add: handleLike_def doc_ref_empty showing_world_def)

theorem C6_vote_issues_one_increment_witness:
  "valid_doc_id ''A'' \<and> filter is_settlement quiet_events = [] \<and>
   map likes (tokens (home showing_world)) = [3, 3, 5, 1] \<and>
   tokens (home (run quiet_events showing_world)) = tokens (home showing_world) \<and>
   handleLike ''A'' showing_world =
     Inr (showing_world\<lparr> store_writes := store_writes showing_world @ [like_cmd ''A''] \<rparr>) \<and>
   store_writes (run quiet_events showing_world) = [like_cmd ''A'', dislike_cmd ''A'']"
proof -
  have v: "valid_doc_id ''A''"
    by (simp add: valid_doc_id_def)
  have f: "filter is_settlement quiet_events = []"
    by (simp add: quiet_events_def)
  have l: "map likes (tokens (home showing_world)) = [3, 3, 5, 1]"
    by (simp add: showing_world_def example_ranking_def example_token_def)
  have s: "store_writes (run quiet_events showing_world) = [like_cmd ''A'', dislike_cmd ''A'']"
    by (simp add: quiet_events_def handleLike_valid handleDislike_valid v showing_world_def)
  note t = C6_vote_issues_one_increment [of "''A''" showing_world quiet_events]
  from t v have 1: "handleLike ''A'' showing_world =
     Inr (showing_world\<lparr> store_writes := store_writes showing_world @ [like_cmd ''A''] \<rparr>)"
    by blast
  from t f have 2: "tokens (home (run quiet_events showing_world)) = tokens (home showing_world)"
    by blast
  from v f l 2 1 s show ?thesis by (intro conjI)
qed

section \<open>What a vote does to the store\<close>

lemma apply_like_absent:
  "st (''coins'', addr) = None \<Longrightarrow>
   apply_write (like_cmd addr) st (''coins'', addr) = Some [''likes'' \<mapsto> 1]"
  by (simp add: apply_write_def like_cmd_def apply_field_def)

lemma apply_like_present:
  "st (''coins'', addr) = Some d \<Longrightarrow>
   apply_write (like_cmd addr) st (''coins'', addr) = Some (d(''likes'' \<mapsto> tally_likes d + 1))"
  by (simp add: apply_write_def like_cmd_def apply_field_def tally_likes_def split: option.splits)

lemma apply_like_other:
  "key \<noteq> (''coins'', addr) \<Longrightarrow> apply_write (like_cmd addr) st key = st key"
  by (auto simp: apply_write_def like_cmd_def Let_def)

lemma apply_dislike_absent:
  "st (''coins'', addr) = None \<Longrightarrow>
   apply_write (dislike_cmd addr) st (''coins'', addr) = Some [''dislikes'' \<mapsto> 1]"
  by (simp add: apply_write_def dislike_cmd_def apply_field_def)

lemma apply_dislike_present:
  "st (''coins'', addr) = Some d \<Longrightarrow>
   apply_write (dislike_cmd addr) st (''coins'', addr) =
     Some (d(''dislikes'' \<mapsto> tally_dislikes d + 1))"
  by (simp add: apply_write_def dislike_cmd_def apply_field_def tally_dislikes_def
      split: option.splits)

lemma apply_dislike_other:
  "key \<noteq> (''coins'', addr) \<Longrightarrow> apply_write (dislike_cmd addr) st key = st key"
  by (auto simp: apply_write_def dislike_cmd_def Let_def)

text \<open>
  C7. The write of a vote is a merge write whose only field is an increment by 1 of
  the voted count. Applied to the store: when the address has no document, one is
  created holding that field alone, at 1, the other count not set; when it has one,
  the voted count grows by 1 (from 0 if it was not set) and every other field of the
  document keeps its value. Documents of other addresses are not touched.
\<close>

theorem C7_increment_merge_semantics:
  "w_merge (like_cmd addr) \<and> w_data (like_cmd addr) = [(''likes'', Increment 1)] \<and>
   w_merge (dislike_cmd addr) \<and> w_data (dislike_cmd addr) = [(''dislikes'', Increment 1)] \<and>
   (st (''coins'', addr) = None \<longrightarrow>
      apply_write (like_cmd addr) st (''coins'', addr) = Some [''likes'' \<mapsto> 1] \<and>
      apply_write (dislike_cmd addr) st (''coins'', addr) = Some [''dislikes'' \<mapsto> 1]) \<and>
   (\<forall>d. st (''coins'', addr) = Some d \<longrightarrow>
      apply_write (like_cmd addr) st (''coins'', addr) =
        Some (d(''likes'' \<mapsto> tally_likes d + 1)) \<and>
      apply_write (dislike_cmd addr) st (''coins'', addr) =
        Some (d(''dislikes'' \<mapsto> tally_dislikes d + 1))) \<and>
   (\<forall>key. key \<noteq> (''coins'', addr) \<longrightarrow>
      apply_write (like_cmd addr) st key = st key \<and>
      apply_write (dislike_cmd addr) st key = st key)"
proof -
  have a: "w_merge (like_cmd addr) \<and> w_data (like_cmd addr) = [(''likes'', Increment 1)] \<and>
   w_merge (dislike_cmd addr) \<and> w_data (dislike_cmd addr) = [(''dislikes'', Increment 1)]"
    by (simp add: like_cmd_def dislike_cmd_def)
  from a apply_like_absent apply_dislike_absent apply_like_present apply_dislike_present
    apply_like_other apply_dislike_other
  show ?thesis by blast
qed

theorem C7_increment_merge_semantics_witness:
  "Map.empty (''coins'', ''A'') = (None :: FirebaseData option) \<and>
   apply_write (like_cmd ''A'') Map.empty (''coins'', ''A'') = Some [''likes'' \<mapsto> 1] \<and>
   example_store (''coins'', ''A'') = Some example_doc \<and>
   apply_write (like_cmd ''A'') example_store (''coins'', ''A'') =
     Some (example_doc(''likes'' \<mapsto> 5)) \<and>
   apply_write (dislike_cmd ''A'') example_store (''coins'', ''A'') =
     Some (example_doc(''dislikes'' \<mapsto> 1)) \<and>
   (''coins'', ''B'') \<noteq> (''coins'', ''A'') \<and>
   apply_write (like_cmd ''A'') example_store (''coins'', ''B'') = example_store (''coins'', ''B'')"
proof -
  have e: "example_store (''coins'', ''A'') = Some example_doc"
    by (simp add: example_store_def)
  have n: "(''coins'', ''B'') \<noteq> (''coins'', ''A'')" by simp
  have l: "tally_likes example_doc + 1 = 5"
    by (simp add: tally_likes_def example_doc_def)
  have d: "tally_dislikes example_doc + 1 = 1"
    by (simp add: tally_dislikes_def example_doc_def)
  note t0 = C7_increment_merge_semantics [of "''A''" Map.empty]
  note t1 = C7_increment_merge_semantics [of "''A''" example_store]
  from t0 have 1:
    "apply_write (like_cmd ''A'') Map.empty (''coins'', ''A'') = Some [''likes'' \<mapsto> 1]"
    by simp
  from t1 have p: "\<forall>d. example_store (''coins'', ''A'') = Some d \<longrightarrow>
      apply_write (like_cmd ''A'') example_store (''coins'', ''A'') =
        Some (d(''likes'' \<mapsto> tally_likes d + 1)) \<and>
      apply_write (dislike_cmd ''A'') example_store (''coins'', ''A'') =
        Some (d(''dislikes'' \<mapsto> tally_dislikes d + 1))"
    by (elim conjE)
  from t1 have o: "\<forall>key. key \<noteq> (''coins'', ''A'') \<longrightarrow>
      apply_write (like_cmd ''A'') example_store key = example_store key \<and>
      apply_write (dislike_cmd ''A'') example_store key = example_store key"
    by (elim conjE)
  note pe = p [rule_format, OF e]
  note on = o [rule_format, OF n]
  have 2: "apply_write (like_cmd ''A'') example_store (''coins'', ''A'') =
        Some (example_doc(''likes'' \<mapsto> 5))"
    using pe [THEN conjunct1] unfolding l .
  have 3: "apply_write (dislike_cmd ''A'') example_store (''coins'', ''A'') =
        Some (example_doc(''dislikes'' \<mapsto> 1))"
    using pe [THEN conjunct2] unfolding d .
  have 4:
    "apply_write (like_cmd ''A'') example_store (''coins'', ''B'') = example_store (''coins'', ''B'')"
    using on [THEN conjunct1] .
  have 0: "Map.empty (''coins'', ''A'') = (None :: FirebaseData option)" by simp
  from 0 1 e 2 3 n 4 show ?thesis by (intro conjI)
qed

lemma apply_like_twice:
  "st (''coins'', addr) = None \<Longrightarrow>
   apply_write (like_cmd addr) (apply_write (like_cmd addr) st) (''coins'', addr) =
     Some [''likes'' \<mapsto> 2]"
proof -
  assume "st (''coins'', addr) = None"
  then have "apply_write (like_cmd addr) st (''coins'', addr) = Some [''likes'' \<mapsto> 1]"
    by (rule apply_like_absent)
  then have "apply_write (like_cmd addr) (apply_write (like_cmd addr) st) (''coins'', addr) =
      Some ([''likes'' \<mapsto> 1](''likes'' \<mapsto> tally_likes [''likes'' \<mapsto> 1] + 1))"
    by (rule apply_like_present)
  then show ?thesis by (simp add: tally_likes_def)
qed

lemma issued_like:
  "valid_doc_id addr \<Longrightarrow> last (store_writes (step (LikeClicked addr) w)) = like_cmd addr"
  by (simp add: handleLike_valid)

lemma field_of_snapshot:
  "st (''coins'', addr) = Some [''likes'' \<mapsto> 2] \<Longrightarrow>
   field_or_zero (coins_snapshot st) addr ''likes'' = 2"
  by (simp add: field_or_zero_def coins_snapshot_def)

text \<open>
  C8. Two likes for one address, clicked in sessions with any two local states, send
  two writes; applied to a store that has no tally for the address, in either order,
  they leave the tally with likes 2, and a snapshot of that store joins to a like
  count of 2. The write of a like does not depend on the local state: it carries the
  increment, not a count.
\<close>

theorem C8_no_lost_update:
  "valid_doc_id addr \<and> st (''coins'', addr) = None \<longrightarrow>
     apply_write (last (store_writes (step (LikeClicked addr) w2)))
       (apply_write (last (store_writes (step (LikeClicked addr) w1))) st) (''coins'', addr) =
       Some [''likes'' \<mapsto> 2] \<and>
     apply_write (last (store_writes (step (LikeClicked addr) w1)))
       (apply_write (last (store_writes (step (LikeClicked addr) w2))) st) (''coins'', addr) =
       Some [''likes'' \<mapsto> 2] \<and>
     (\<forall>j. address j = addr \<longrightarrow>
        likes (join_token (coins_snapshot
          (apply_write (last (store_writes (step (LikeClicked addr) w2)))
             (apply_write (last (store_writes (step (LikeClicked addr) w1))) st))) j) = 2 \<and>
        likes (join_token (coins_snapshot
          (apply_write (last (store_writes (step (LikeClicked addr) w1)))
             (apply_write (last (store_writes (step (LikeClicked addr) w2))) st))) j) = 2)"
proof (intro impI)
  assume h: "valid_doc_id addr \<and> st (''coins'', addr) = None"
  then have c1: "last (store_writes (step (LikeClicked addr) w1)) = like_cmd addr"
    and c2: "last (store_writes (step (LikeClicked addr) w2)) = like_cmd addr"
    by (simp_all only: issued_like)
  from h have t: "apply_write (like_cmd addr) (apply_write (like_cmd addr) st) (''coins'', addr) =
     Some [''likes'' \<mapsto> 2]"
    by (simp only: apply_like_twice)
  then have j: "likes (join_token (coins_snapshot
        (apply_write (like_cmd addr) (apply_write (like_cmd addr) st))) j) = 2"
    if "address j = addr" for j
    using that field_of_snapshot [of "apply_write (like_cmd addr) (apply_write (like_cmd addr) st)" addr, OF t]
    by (simp add: join_token_def)
  from t j show "apply_write (last (store_writes (step (LikeClicked addr) w2)))
       (apply_write (last (store_writes (step (LikeClicked addr) w1))) st) (''coins'', addr) =
       Some [''likes'' \<mapsto> 2] \<and>
     apply_write (last (store_writes (step (LikeClicked addr) w1)))
       (apply_write (last (store_writes (step (LikeClicked addr) w2))) st) (''coins'', addr) =
       Some [''likes'' \<mapsto> 2] \<and>
     (\<forall>j. address j = addr \<longrightarrow>
        likes (join_token (coins_snapshot
          (apply_write (last (store_writes (step (LikeClicked addr) w2)))
             (apply_write (last (store_writes (step (LikeClicked addr) w1))) st))) j) = 2 \<and>
        likes (join_token (coins_snapshot
          (apply_write (last (store_writes (step (LikeClicked addr) w1)))
             (apply_write (last (store_writes (step (LikeClicked addr) w2))) st))) j) = 2)"
    unfolding c1 c2 by simp
qed

theorem C8_no_lost_update_witness:
  "valid_doc_id ''A'' \<and> Map.empty (''coins'', ''A'') = (None :: FirebaseData option) \<and>
   address (example_entry ''A'' ''Foo'') = ''A'' \<and>
   apply_write (last (store_writes (step (LikeClicked ''A'') showing_world)))
       (apply_write (last (store_writes (step (LikeClicked ''A'') initial_world))) Map.empty)
       (''coins'', ''A'') = Some [''likes'' \<mapsto> 2] \<and>
   likes (join_token (coins_snapshot
          (apply_write (last (store_writes (step (LikeClicked ''A'') showing_world)))
             (apply_write (last (store_writes (step (LikeClicked ''A'') initial_world))) Map.empty)))
        (example_entry ''A'' ''Foo'')) = 2"
proof -
  have v: "valid_doc_id ''A''"
    by (simp add: valid_doc_id_def)
  have n: "Map.empty (''coins'', ''A'') = (None :: FirebaseData option)"
    by simp
  have a: "address (example_entry ''A'' ''Foo'') = ''A''"
    by (simp add: example_entry_def)
  note t = C8_no_lost_update [of "''A''" Map.empty showing_world initial_world, rule_format, OF conjI, OF v n]
  note t1 = t [THEN conjunct1]
  note t3 = t [THEN conjunct2, THEN conjunct2, rule_format, OF a, THEN conjunct1]
  from v n a t1 t3 show ?thesis by (intro conjI)
qed

section \<open>The loading flag\<close>

lemma loading_step: "\<not> ends_loading e \<Longrightarrow> isLoading (home (step e w)) = isLoading (home w)"
  by (cases e) (simp_all add: step_like_frame step_dislike_frame del: step.simps(4,5))

lemma loading_run:
  "filter ends_loading es = [] \<Longrightarrow> isLoading (home (run es w)) = isLoading (home w)"
  by (induction es arbitrary: w) (simp_all add: loading_step del: step.simps split: if_splits)

lemma not_loading_step: "\<not> isLoading (home w) \<Longrightarrow> \<not> isLoading (home (step e w))"
  by (cases e) (simp_all add: step_like_frame step_dislike_frame onSnapshot_error_def
      not_loading_onSnapshot_next del: step.simps(4,5))

lemma not_loading_run: "\<not> isLoading (home w) \<Longrightarrow> \<not> isLoading (home (run es w))"
  by (induction es arbitrary: w) (simp_all add: not_loading_step del: step.simps)

text \<open>
  C9. A session starts loading, with no tokens. The flag keeps its value over events
  none of which is a settled fetch or the subscription error, so loading is still true
  until the first snapshot callback completes. When a suspended snapshot callback
  completes, loading is false afterwards, whatever the request came to. Once loading
  is false it stays false over every further sequence of events.
\<close>

theorem C9_loading_state_machine:
  "isLoading (home initial_world) \<and> tokens (home initial_world) = [] \<and>
   (filter ends_loading es = [] \<longrightarrow> isLoading (home (run es w)) = isLoading (home w)) \<and>
   (k < length (in_flight w) \<longrightarrow> \<not> isLoading (home (step (FetchSettled k r) w))) \<and>
   (\<not> isLoading (home w) \<longrightarrow> \<not> isLoading (home (run es w)))"
  using not_loading_run [of w es] loading_run [of es w]
  by (simp add: initial_world_def initial_home_def not_loading_onSnapshot_next)

theorem C9_loading_state_machine_witness:
  "filter ends_loading waiting_events = [] \<and>
   isLoading (home (run waiting_events initial_world)) \<and>
   0 < length (in_flight (run waiting_events initial_world)) \<and>
   \<not> isLoading (home (step (FetchSettled 0 NetworkFailure) (run waiting_events initial_world))) \<and>
   \<not> isLoading (home (run vote_scenario
        (step (FetchSettled 0 NetworkFailure) (run waiting_events initial_world))))"
proof -
  have h0: "filter ends_loading waiting_events = []"
    by (simp add: waiting_events_def)
  have h1: "0 < length (in_flight (run waiting_events initial_world))"
    by (simp add: waiting_events_def initial_world_def handleLike_valid valid_doc_id_def)
  note a = C9_loading_state_machine [of waiting_events initial_world]
  from a h0 have 1: "isLoading (home (run waiting_events initial_world))"
    by blast
  note b = C9_loading_state_machine [of _ "run waiting_events initial_world" 0 NetworkFailure]
  from b h1 have 2:
    "\<not> isLoading (home (step (FetchSettled 0 NetworkFailure) (run waiting_events initial_world)))"
    by blast
  note c = C9_loading_state_machine [of vote_scenario
      "step (FetchSettled 0 NetworkFailure) (run waiting_events initial_world)"]
  from c 2 have 3: "\<not> isLoading (home (run vote_scenario
        (step (FetchSettled 0 NetworkFailure) (run waiting_events initial_world))))"
    by blast
  from h0 1 h1 2 3 show ?thesis by (intro conjI)
qed

text \<open>
  C10. The error callback of the subscription sets loading to false and leaves the
  tokens (and the search term) as they were; when it fires before any snapshot has
  been processed, the view is empty and not loading.
\<close>

theorem C10_subscription_error_stops_loading:
  "tokens (onSnapshot_error s) = tokens s \<and> searchTerm (onSnapshot_error s) = searchTerm s \<and>
   \<not> isLoading (onSnapshot_error s) \<and>
   tokens (home (step SubscriptionFailed initial_world)) = [] \<and>
   \<not> isLoading (home (step SubscriptionFailed initial_world))"
  by (simp add: onSnapshot_error_def initial_world_def initial_home_def)

end
